theory Spec2Isabelle
  imports Main
begin

section \<open>The address form of \<^verbatim>\<open>src/components/AddressForm.tsx\<close>\<close>

text \<open>
  A JavaScript string is modelled as a \<^typ>\<open>string\<close>, one \<^typ>\<open>char\<close> per code unit.
  The accented letters of the notification texts are Latin-1 code units, written with
  their code (\<open>0xF3\<close> is o-acute, \<open>0xE1\<close> a-acute, \<open>0xA1\<close> the inverted
  exclamation mark).
\<close>

subsection \<open>Data model\<close>

datatype category = casa | trabajo | vecino | amigo | familiares | conserje | otro

text \<open>The optional prop \<^verbatim>\<open>initialData\<close> (lines 21-35); the fields marked \<^verbatim>\<open>?\<close> are options.\<close>

record initialData =
  init_id :: string
  init_label :: string
  init_street :: string
  init_city :: string
  init_state :: string
  init_zip_code :: string
  init_country :: string
  init_is_default :: bool
  init_category :: category
  init_email :: "string option"
  init_phone :: "string option"
  init_identification :: "string option"
  init_full_name :: "string option"

text \<open>The component's \<^verbatim>\<open>useState\<close> cells (lines 61-74), under the names of the source.\<close>

record form =
  loading :: bool
  fullName :: string
  identification :: string
  email :: string
  phone :: string
  country :: string
  region :: string
  city :: string
  zipCode :: string
  street :: string
  label :: string
  isDefault :: bool
  category :: category
  selectedCategory :: category

text \<open>
  The object literal \<^verbatim>\<open>addressData\<close> (lines 98-112); each key carries the suffix
  \<open>_col\<close>, being a column of the table \<^verbatim>\<open>addresses\<close>.
\<close>

record addressData =
  label_col :: string
  street_col :: string
  city_col :: string
  state_col :: string
  zip_code_col :: string
  country_col :: string
  is_default_col :: bool
  user_id_col :: string
  category_col :: category
  email_col :: string
  phone_col :: string
  identification_col :: string
  full_name_col :: string

record user =
  user_id :: string

datatype variant = destructive

record toast =
  title :: string
  description :: string
  variant :: "variant option"

text \<open>
  What a \<^verbatim>\<open>catch\<close> clause can receive here: the \<^verbatim>\<open>Error\<close> built at line 87, the
  \<^verbatim>\<open>ReferenceError\<close> of an unresolvable identifier, and the error object of a
  persistence response. Each carries its \<^verbatim>\<open>message\<close>.
\<close>

datatype js_error = Error string | ReferenceError string | PostgrestError string

fun message :: "js_error \<Rightarrow> string" where
  "message (Error m) = m"
| "message (ReferenceError m) = m"
| "message (PostgrestError m) = m"

text \<open>The two calls on the persistence API: table, payload and, for an update, the id matched.\<close>

datatype request =
  Update string addressData string
| Insert string "addressData list"

text \<open>
  The collaborators of a submission: the user \<^verbatim>\<open>supabase.auth.getUser()\<close> resolves to
  (\<open>None\<close> is \<^verbatim>\<open>null\<close>), and the message of the \<^verbatim>\<open>error\<close> member of the response to
  each persistence request (\<open>None\<close> is \<^verbatim>\<open>null\<close>). Both promises resolve, and the
  callback \<^verbatim>\<open>onSuccess\<close> returns.
\<close>

record env =
  getUser :: "user option"
  respond :: "request \<Rightarrow> string option"

record props =
  initial :: "initialData option"

text \<open>The observable effects of the handlers, in the order they happen.\<close>

datatype event =
  PreventDefault
| SetLoading bool
| GetUser
| Notify toast
| Persist request
| OnSuccess

text \<open>How a statement list is left: by running to its end, by \<^verbatim>\<open>return\<close>, or by a throw.\<close>

datatype completion = Normal | Return | Throw js_error

subsection \<open>Initial state\<close>

text \<open>\<^verbatim>\<open>initialData?.f || d\<close> for a string: the default replaces a missing or empty value.\<close>

definition or_default :: "string option \<Rightarrow> string \<Rightarrow> string" where
  "or_default v d = (case v of None \<Rightarrow> d | Some s \<Rightarrow> if s = [] then d else s)"

definition initial_form :: "props \<Rightarrow> form" where
  "initial_form p =
     (let cat = (case initial p of None \<Rightarrow> otro | Some d \<Rightarrow> init_category d) in
      \<lparr> loading = False,
        fullName = or_default (Option.bind (initial p) init_full_name) [],
        identification = or_default (Option.bind (initial p) init_identification) [],
        email = or_default (Option.bind (initial p) init_email) [],
        phone = or_default (Option.bind (initial p) init_phone) [],
        country = or_default (map_option init_country (initial p)) ''CL'',
        region = or_default (map_option init_state (initial p)) [],
        city = or_default (map_option init_city (initial p)) [],
        zipCode = or_default (map_option init_zip_code (initial p)) [],
        street = or_default (map_option init_street (initial p)) [],
        label = or_default (map_option init_label (initial p)) [],
        isDefault = (case initial p of None \<Rightarrow> False | Some d \<Rightarrow> init_is_default d),
        category = cat,
        selectedCategory = cat \<rparr>)"

subsection \<open>The identification input (lines 76-79)\<close>

text \<open>The character class \<^verbatim>\<open>[0-9kK-]\<close>, whose complement the handler's regex removes.\<close>

definition rut_char :: "char \<Rightarrow> bool" where
  "rut_char c = (c \<in> set ''0123456789kK-'')"

text \<open>\<^verbatim>\<open>s.replace(/[^0-9kK-]/g, '')\<close>: every code unit outside the class is replaced by nothing.\<close>

primrec replace_non_rut :: "string \<Rightarrow> string" where
  "replace_non_rut [] = []"
| "replace_non_rut (c # cs) = (if rut_char c then c # replace_non_rut cs else replace_non_rut cs)"

text \<open>
  \<^verbatim>\<open>formatRUT\<close> is imported from \<^verbatim>\<open>@/lib/format-rut\<close>; the handler is modelled over any
  such function.
\<close>

definition handleIdentificationChange :: "(string \<Rightarrow> string) \<Rightarrow> string \<Rightarrow> form \<Rightarrow> form" where
  "handleIdentificationChange formatRUT raw st =
     (let val = replace_non_rut raw in st\<lparr>identification := formatRUT val\<rparr>)"

subsection \<open>Submission (lines 81-147)\<close>

text \<open>
  The identifier \<^verbatim>\<open>state\<close> of line 102 is bound nowhere in the module (nor is the
  \<^verbatim>\<open>state\<close> that the input of lines 236-242 reads), so evaluating it throws a
  \<^verbatim>\<open>ReferenceError\<close>; the message is the one of V8 and SpiderMonkey.
\<close>

definition not_defined :: "string \<Rightarrow> js_error" where
  "not_defined x = ReferenceError (x @ '' is not defined'')"

definition build_addressData :: "form \<Rightarrow> user \<Rightarrow> js_error + addressData" where
  "build_addressData st u =
     (if country st = ''CL'' then
        Inr \<lparr> label_col = label st,
              street_col = street st,
              city_col = city st,
              state_col = region st,
              zip_code_col = zipCode st,
              country_col = country st,
              is_default_col = isDefault st,
              user_id_col = user_id u,
              category_col = category st,
              email_col = email st,
              phone_col = phone st,
              identification_col = identification st,
              full_name_col = fullName st \<rparr>
      else Inl (not_defined ''state''))"

definition no_user_text :: string where
  "no_user_text = ''No se encontr'' @ [CHR 0xF3] @ '' usuario''"

definition invalid_rut_toast :: toast where
  "invalid_rut_toast =
     \<lparr> title = ''Error'',
       description = ''El RUT ingresado no es v'' @ [CHR 0xE1] @ ''lido'',
       variant = Some destructive \<rparr>"

definition updated_toast :: toast where
  "updated_toast =
     \<lparr> title = [CHR 0xA1] @ ''Direcci'' @ [CHR 0xF3] @ ''n actualizada!'',
       description = ''La direcci'' @ [CHR 0xF3] @ ''n se ha actualizado correctamente.'',
       variant = None \<rparr>"

definition saved_toast :: toast where
  "saved_toast =
     \<lparr> title = [CHR 0xA1] @ ''Direcci'' @ [CHR 0xF3] @ ''n guardada!'',
       description = ''La direcci'' @ [CHR 0xF3] @ ''n se ha guardado correctamente.'',
       variant = None \<rparr>"

definition error_toast :: "js_error \<Rightarrow> toast" where
  "error_toast e = \<lparr> title = ''Error'', description = message e, variant = Some destructive \<rparr>"

text \<open>
  The \<^verbatim>\<open>try\<close> block (lines 86-137). \<^verbatim>\<open>isValidRUT\<close> is imported from
  \<^verbatim>\<open>@/lib/format-rut\<close> and is a parameter.
\<close>

definition try_block :: "(string \<Rightarrow> bool) \<Rightarrow> env \<Rightarrow> props \<Rightarrow> form \<Rightarrow> event list \<times> completion" where
  "try_block isValidRUT e p st =
     (case getUser e of
        None \<Rightarrow> ([GetUser], Throw (Error no_user_text))
      | Some u \<Rightarrow>
          if identification st \<noteq> [] \<and> \<not> isValidRUT (identification st) then
            ([GetUser, Notify invalid_rut_toast], Return)
          else
            (case build_addressData st u of
               Inl err \<Rightarrow> ([GetUser], Throw err)
             | Inr a \<Rightarrow>
                 (case initial p of
                    Some d \<Rightarrow>
                      (let req = Update ''addresses'' a (init_id d) in
                       case respond e req of
                         Some m \<Rightarrow> ([GetUser, Persist req], Throw (PostgrestError m))
                       | None \<Rightarrow> ([GetUser, Persist req, Notify updated_toast, OnSuccess], Normal))
                  | None \<Rightarrow>
                      (let req = Insert ''addresses'' [a] in
                       case respond e req of
                         Some m \<Rightarrow> ([GetUser, Persist req], Throw (PostgrestError m))
                       | None \<Rightarrow> ([GetUser, Persist req, Notify saved_toast, OnSuccess], Normal)))))"

text \<open>The \<^verbatim>\<open>catch\<close> clause (lines 138-143) runs only for a throw.\<close>

definition catch_block :: "completion \<Rightarrow> event list" where
  "catch_block c = (case c of Throw err \<Rightarrow> [Notify (error_toast err)] | _ \<Rightarrow> [])"

definition setLoading :: "bool \<Rightarrow> form \<Rightarrow> form" where
  "setLoading b st = st\<lparr>loading := b\<rparr>"

text \<open>
  \<^verbatim>\<open>handleSubmit\<close>: the events of one submission and the state it leaves. The \<^verbatim>\<open>try\<close>
  block reads the field values of the render that created the handler; the only state
  setter called is \<^verbatim>\<open>setLoading\<close>, before the \<^verbatim>\<open>try\<close> and in \<^verbatim>\<open>finally\<close>.
\<close>

definition handleSubmit :: "(string \<Rightarrow> bool) \<Rightarrow> env \<Rightarrow> props \<Rightarrow> form \<Rightarrow> event list \<times> form" where
  "handleSubmit isValidRUT e p st =
     (let st1 = setLoading True st;
          (evs, c) = try_block isValidRUT e p st;
          st2 = setLoading False st1
      in ([PreventDefault, SetLoading True] @ evs @ catch_block c @ [SetLoading False], st2))"

subsection \<open>Reading a trace\<close>

fun persisted :: "event list \<Rightarrow> request list" where
  "persisted [] = []"
| "persisted (Persist r # evs) = r # persisted evs"
| "persisted (_ # evs) = persisted evs"

fun notified :: "event list \<Rightarrow> toast list" where
  "notified [] = []"
| "notified (Notify t # evs) = t # notified evs"
| "notified (_ # evs) = notified evs"

fun loadings :: "event list \<Rightarrow> bool list" where
  "loadings [] = []"
| "loadings (SetLoading b # evs) = b # loadings evs"
| "loadings (_ # evs) = loadings evs"

subsection \<open>The submit control and the two states (lines 289-293)\<close>

datatype phase = editing | submitting

definition phase_of :: "form \<Rightarrow> phase" where
  "phase_of st = (if loading st then submitting else editing)"

text \<open>\<^verbatim>\<open>disabled={loading}\<close> on the submit button.\<close>

definition submitDisabled :: "form \<Rightarrow> bool" where
  "submitDisabled st = loading st"

text \<open>
  The form on screen together with the number of submissions that have started and not
  yet run their \<^verbatim>\<open>finally\<close>. A submission starts only through the submit control, so only
  while it is enabled; it ends with the state \<^verbatim>\<open>handleSubmit\<close> leaves; the field handlers
  in between leave \<^verbatim>\<open>loading\<close> alone.
\<close>

record ui =
  shown :: form
  in_flight :: nat

inductive step :: "(string \<Rightarrow> bool) \<Rightarrow> props \<Rightarrow> ui \<Rightarrow> ui \<Rightarrow> bool"
  for isValidRUT :: "string \<Rightarrow> bool" and p :: props where
  submit: "\<not> submitDisabled (shown s) \<Longrightarrow>
     step isValidRUT p s \<lparr>shown = setLoading True (shown s), in_flight = Suc (in_flight s)\<rparr>"
| settle: "0 < in_flight s \<Longrightarrow>
     step isValidRUT p s
       \<lparr>shown = snd (handleSubmit isValidRUT e p (shown s)), in_flight = in_flight s - 1\<rparr>"
| change: "loading f = loading (shown s) \<Longrightarrow>
     step isValidRUT p s \<lparr>shown = f, in_flight = in_flight s\<rparr>"

inductive reachable :: "(string \<Rightarrow> bool) \<Rightarrow> props \<Rightarrow> ui \<Rightarrow> bool"
  for isValidRUT :: "string \<Rightarrow> bool" and p :: props where
  start: "reachable isValidRUT p \<lparr>shown = initial_form p, in_flight = 0\<rparr>"
| after: "reachable isValidRUT p s \<Longrightarrow> step isValidRUT p s t \<Longrightarrow> reachable isValidRUT p t"

subsection \<open>The identifier helpers of \<^verbatim>\<open>@/lib/format-rut\<close>\<close>

definition isDigit :: "char \<Rightarrow> bool" where
  "isDigit c = (c \<in> set ''0123456789'')"

definition isK :: "char \<Rightarrow> bool" where
  "isK c = (c = CHR ''k'' \<or> c = CHR ''K'')"

text \<open>
  Modelled from the spec: \<^verbatim>\<open>formatRUT\<close>, whose file \<^verbatim>\<open>lib/format-rut\<close> is missing. Section
  4.1: the output is the input's content with every character that is neither a digit nor
  k/K stripped and exactly one hyphen inserted immediately before the final character;
  no error conditions; empty input yields empty output.
\<close>

definition formatRUT :: "string \<Rightarrow> string" where
  "formatRUT s =
     (let clean = filter (\<lambda>c. isDigit c \<or> isK c) s
      in if clean = [] then [] else butlast clean @ ''-'' @ [last clean])"

text \<open>
  Modelled from the spec: the parts of \<^verbatim>\<open>isValidRUT\<close> (file \<^verbatim>\<open>lib/format-rut\<close>, missing),
  after section 4.2. The input is a formatted identifier, which section 4.1 describes as
  the digits followed by one hyphen and the final check character; any other string is
  malformed.
\<close>

definition split_rut :: "string \<Rightarrow> (string \<times> char) option" where
  "split_rut s =
     (case rev s of
        c # h # rbody \<Rightarrow>
          if h = CHR ''-'' \<and> rbody \<noteq> [] \<and> list_all isDigit rbody then Some (rev rbody, c)
          else None
      | _ \<Rightarrow> None)"

text \<open>
  Modelled from the spec: the checksum of \<^verbatim>\<open>isValidRUT\<close> (file \<^verbatim>\<open>lib/format-rut\<close>, missing).
  The weighted sum takes the digits from the least significant one with the weights
  2, 3, 4, 5, 6, 7, 2, ... Section 4.2 maps 11 to 0, 10 to K and any other value to its
  digit. A remainder modulo 11 is never 11, so the value mapped is the complement of the
  remainder to 11, which lies between 1 and 11: the check digit of the RUT that the
  source's names refer to, and the reading under which each case of the mapping occurs.
  The comparison ignores case.
\<close>

fun weighted :: "nat \<Rightarrow> nat list \<Rightarrow> nat" where
  "weighted k [] = 0"
| "weighted k (d # ds) = d * (2 + k mod 6) + weighted (k + 1) ds"

definition digit_value :: "char \<Rightarrow> nat" where
  "digit_value c = of_char c - 48"

definition weighted_sum :: "string \<Rightarrow> nat" where
  "weighted_sum body = weighted 0 (map digit_value (rev body))"

definition check_value :: "string \<Rightarrow> nat" where
  "check_value body = 11 - weighted_sum body mod 11"

definition check_char :: "nat \<Rightarrow> char" where
  "check_char r =
     (if r = 11 then CHR ''0'' else if r = 10 then CHR ''K'' else char_of (48 + r))"

definition lower_case :: string where
  "lower_case = ''abcdefghijklmnopqrstuvwxyz''"

definition upper_case :: string where
  "upper_case = ''ABCDEFGHIJKLMNOPQRSTUVWXYZ''"

definition toUpperCase :: "char \<Rightarrow> char" where
  "toUpperCase c = (case map_of (zip lower_case upper_case) c of Some C \<Rightarrow> C | None \<Rightarrow> c)"

text \<open>
  Modelled from the spec: \<^verbatim>\<open>isValidRUT\<close>, whose file \<^verbatim>\<open>lib/format-rut\<close> is missing. Section
  4.2: empty or malformed input is invalid; otherwise the character computed from the
  digits is compared case-insensitively with the supplied check character.
\<close>

definition isValidRUT :: "string \<Rightarrow> bool" where
  "isValidRUT s =
     (case split_rut s of
        None \<Rightarrow> False
      | Some (body, c) \<Rightarrow> toUpperCase c = toUpperCase (check_char (check_value body)))"

subsection \<open>The region control (lines 222-243)\<close>


subsection \<open>Sample inputs\<close>

definition accept_all :: "request \<Rightarrow> string option" where
  "accept_all r = None"

definition refuse_all :: "request \<Rightarrow> string option" where
  "refuse_all r = Some ''duplicate key value''"

definition alice :: user where
  "alice = \<lparr>user_id = ''u-1''\<rparr>"

definition signed_in :: env where
  "signed_in = \<lparr>getUser = Some alice, respond = accept_all\<rparr>"

definition signed_out :: env where
  "signed_out = \<lparr>getUser = None, respond = accept_all\<rparr>"

definition store_down :: env where
  "store_down = \<lparr>getUser = Some alice, respond = refuse_all\<rparr>"

definition create_mode :: props where
  "create_mode = \<lparr>initial = None\<rparr>"

definition home_row :: initialData where
  "home_row =
     \<lparr> init_id = ''a-7'', init_label = ''Casa'', init_street = ''Los Olmos 12'',
       init_city = ''Santiago'', init_state = ''RM'', init_zip_code = [], init_country = ''CL'',
       init_is_default = True, init_category = casa, init_email = None, init_phone = None,
       init_identification = None, init_full_name = Some ''Ana Soto'' \<rparr>"

definition edit_mode :: props where
  "edit_mode = \<lparr>initial = Some home_row\<rparr>"

definition home_form :: form where
  "home_form = initial_form edit_mode"

definition home_address :: addressData where
  "home_address =
     \<lparr> label_col = ''Casa'', street_col = ''Los Olmos 12'', city_col = ''Santiago'',
       state_col = ''RM'', zip_code_col = [], country_col = ''CL'', is_default_col = True,
       user_id_col = ''u-1'', category_col = casa, email_col = [], phone_col = [],
       identification_col = [], full_name_col = ''Ana Soto'' \<rparr>"

definition bad_rut_form :: form where
  "bad_rut_form = home_form\<lparr>identification := ''12345678-0''\<rparr>"

definition abroad_form :: form where
  "abroad_form = home_form\<lparr>country := ''AR'', region := ''Mendoza''\<rparr>"

definition one_submitted :: ui where
  "one_submitted = \<lparr>shown = setLoading True (initial_form create_mode), in_flight = 1\<rparr>"

section \<open>Properties\<close>

lemmas sample_defs =
  accept_all_def refuse_all_def alice_def signed_in_def signed_out_def store_down_def
  create_mode_def home_row_def edit_mode_def home_form_def home_address_def bad_rut_form_def
  abroad_form_def one_submitted_def initial_form_def or_default_def

subsection \<open>The identifier formatter\<close>

lemma hyphen_dropped: "\<not> (isDigit CHR ''-'' \<or> isK CHR ''-'')"
  by (simp add: isDigit_def isK_def)

lemma refilter_hyphenated:
  assumes "clean = filter (\<lambda>c. isDigit c \<or> isK c) s" and "clean \<noteq> []"
  shows "filter (\<lambda>c. isDigit c \<or> isK c) (butlast clean @ ''-'' @ [last clean]) = clean"
proof -
  let ?P = "\<lambda>c. isDigit c \<or> isK c"
  have all: "\<forall>c \<in> set clean. ?P c" using assms(1) by simp
  have "filter ?P (butlast clean) = butlast clean"
    using all by (intro filter_True) (blast dest: in_set_butlastD)
  moreover have "?P (last clean)" using all assms(2) by simp
  ultimately have "filter ?P (butlast clean @ ''-'' @ [last clean]) = butlast clean @ [last clean]"
    using hyphen_dropped by simp
  then show ?thesis using assms(2) by simp
qed

text \<open>
  Claim C7. The identifier formatter is idempotent: formatting a formatted value gives it
  back, for every input string. It is a total function to strings (there is no error
  result), and the empty input gives the empty output.
\<close>

theorem formatRUT_idempotent:
  "formatRUT (formatRUT x) = formatRUT x \<and> formatRUT [] = []"
proof (cases "filter (\<lambda>c. isDigit c \<or> isK c) x = []")
  case True
  then show ?thesis by (simp add: formatRUT_def)
next
  case False
  then show ?thesis
    using refilter_hyphenated [OF refl False] by (simp add: formatRUT_def Let_def)
qed

theorem formatRUT_idempotent_witness:
  "formatRUT ''12.345.678-k'' = ''12345678-k''
   \<and> formatRUT (formatRUT ''12.345.678-k'') = formatRUT ''12.345.678-k''
   \<and> formatRUT [] = []"
  using formatRUT_idempotent [of "''12.345.678-k''"]
  by (simp add: formatRUT_def isDigit_def isK_def)

subsection \<open>The identification input\<close>

lemma replace_non_rut_filter:
  "replace_non_rut s = filter (\<lambda>c. c \<in> set ''0123456789kK-'') s"
  by (induction s) (simp_all add: rut_char_def)

text \<open>
  Claim C10. After a change event on the identification input with raw value \<open>raw\<close>, the
  stored identification is \<^verbatim>\<open>formatRUT\<close> (whatever function that is) applied to \<open>raw\<close>
  with every character removed that is not a digit, k, K or the hyphen; nothing else of
  the form state changes, so the raw value itself is never what is stored.
\<close>

theorem identification_change_stores_formatted:
  "handleIdentificationChange f raw st =
     st\<lparr>identification := f (filter (\<lambda>c. c \<in> set ''0123456789kK-'') raw)\<rparr>
   \<and> identification (handleIdentificationChange f raw st) =
       f (filter (\<lambda>c. c \<in> set ''0123456789kK-'') raw)"
  by (simp add: handleIdentificationChange_def replace_non_rut_filter)

theorem identification_change_stores_formatted_witness:
  "filter (\<lambda>c. c \<in> set ''0123456789kK-'') ''12.345.678-5 x'' = ''12345678-5''
   \<and> identification (handleIdentificationChange formatRUT ''12.345.678-5 x'' home_form) =
       ''12345678-5''"
  using identification_change_stores_formatted [of formatRUT "''12.345.678-5 x''" home_form]
  by (simp add: formatRUT_def isDigit_def isK_def)

subsection \<open>The identifier validator\<close>

lemma char_of_eq_iff: "(char_of (n::nat) = c) = (n mod 256 = of_char c)"
proof
  assume "char_of n = c"
  then have "of_char (char_of n) = (of_char c :: nat)" by simp
  then show "n mod 256 = of_char c" by (simp add: of_char_of)
next
  assume "n mod 256 = of_char c"
  then have "char_of (n mod 256) = (char_of (of_char c :: nat) :: char)" by simp
  then show "char_of n = c" by (simp add: char_of_mod_256)
qed

lemma eq_char_of_iff: "(c = char_of (n::nat)) = (n mod 256 = of_char c)"
  using char_of_eq_iff [of n c] by auto

lemmas rut_eval =
  isValidRUT_def split_rut_def check_value_def weighted_sum_def isDigit_def digit_value_def
  check_char_def toUpperCase_def lower_case_def upper_case_def char_of_eq_iff eq_char_of_iff

lemma bad_rut_invalid: "\<not> isValidRUT ''12345678-0''"
  by (simp add: rut_eval)
























subsection \<open>Submission\<close>

lemma handleSubmit_trace:
  "fst (handleSubmit v e p st) =
     [PreventDefault, SetLoading True] @ fst (try_block v e p st)
       @ catch_block (snd (try_block v e p st)) @ [SetLoading False]"
  by (simp add: handleSubmit_def Let_def split: prod.splits)

lemma handleSubmit_state: "snd (handleSubmit v e p st) = st\<lparr>loading := False\<rparr>"
  by (simp add: handleSubmit_def setLoading_def Let_def split: prod.splits)

text \<open>The \<^verbatim>\<open>try\<close> block with the construction of the record unfolded.\<close>

lemma try_block_cases:
  "try_block v e p st =
     (case getUser e of
        None \<Rightarrow> ([GetUser], Throw (Error no_user_text))
      | Some u \<Rightarrow>
          if identification st \<noteq> [] \<and> \<not> v (identification st) then
            ([GetUser, Notify invalid_rut_toast], Return)
          else if country st \<noteq> ''CL'' then ([GetUser], Throw (not_defined ''state''))
          else
            (let a = projr (build_addressData st u);
                 req = (case initial p of Some d \<Rightarrow> Update ''addresses'' a (init_id d)
                                        | None \<Rightarrow> Insert ''addresses'' [a])
             in case respond e req of
                  Some m \<Rightarrow> ([GetUser, Persist req], Throw (PostgrestError m))
                | None \<Rightarrow>
                    ([GetUser, Persist req,
                      Notify (case initial p of Some d \<Rightarrow> updated_toast | None \<Rightarrow> saved_toast),
                      OnSuccess], Normal)))"
  by (simp add: try_block_def build_addressData_def Let_def split: option.splits)

text \<open>
  The \<^verbatim>\<open>try\<close> block runs to its end exactly when a user is resolved, the identifier is
  empty or valid, the record can be built, and the store answers the request without an
  error.
\<close>

lemma try_block_Normal:
  "snd (try_block v e p st) = Normal \<longleftrightarrow>
     (\<exists>u a. getUser e = Some u \<and> (identification st = [] \<or> v (identification st))
        \<and> build_addressData st u = Inr a
        \<and> respond e (case initial p of Some d \<Rightarrow> Update ''addresses'' a (init_id d)
                                     | None \<Rightarrow> Insert ''addresses'' [a]) = None)"
  by (auto simp: try_block_def Let_def split: option.splits sum.splits)

lemma sample_build: "build_addressData home_form alice = Inr home_address"
  by (simp add: build_addressData_def sample_defs)

lemma sample_identification: "identification home_form = []"
  by (simp add: sample_defs)

lemma sample_create_Normal: "snd (try_block isValidRUT signed_in create_mode home_form) = Normal"
  by (simp add: try_block_def sample_build sample_identification signed_in_def create_mode_def
      accept_all_def)

lemma sample_edit_Normal: "snd (try_block isValidRUT signed_in edit_mode home_form) = Normal"
  by (simp add: try_block_def sample_build sample_identification signed_in_def edit_mode_def
      accept_all_def)

text \<open>
  Claim C4. When no authenticated user is resolvable, the submission shows the error
  notification of the unauthenticated condition and nothing else: the trace is exactly
  the one below, so neither insert nor update is attempted.
\<close>

theorem submit_unauthenticated:
  "getUser e = None \<Longrightarrow>
     fst (handleSubmit v e p st) =
       [PreventDefault, SetLoading True, GetUser,
        Notify \<lparr>title = ''Error'', description = no_user_text, variant = Some destructive\<rparr>,
        SetLoading False]
     \<and> persisted (fst (handleSubmit v e p st)) = []"
  by (simp add: handleSubmit_def try_block_def catch_block_def error_toast_def)

theorem submit_unauthenticated_witness:
  "getUser signed_out = None
   \<and> fst (handleSubmit isValidRUT signed_out create_mode home_form) =
       [PreventDefault, SetLoading True, GetUser,
        Notify \<lparr>title = ''Error'', description = no_user_text, variant = Some destructive\<rparr>,
        SetLoading False]
   \<and> persisted (fst (handleSubmit isValidRUT signed_out create_mode home_form)) = []"
  using submit_unauthenticated [of signed_out isValidRUT create_mode home_form]
  by (simp add: signed_out_def)

text \<open>
  Claim C1. A submission in create mode (no pre-fill record) that succeeds, that is,
  whose \<^verbatim>\<open>try\<close> block runs to its end, issues exactly one persistence request: the insert
  of one record holding the entered label, street, city, region, postal code, country,
  default flag, category and contact fields, with the id of the resolved user; and it
  calls the completion callback exactly once.
\<close>

theorem create_success:
  assumes "initial p = None" and "snd (try_block v e p st) = Normal"
  shows "getUser e \<noteq> None
     \<and> persisted (fst (handleSubmit v e p st)) =
         [Insert ''addresses''
            [\<lparr> label_col = label st, street_col = street st, city_col = city st,
                state_col = region st, zip_code_col = zipCode st, country_col = country st,
                is_default_col = isDefault st, user_id_col = user_id (the (getUser e)),
                category_col = category st, email_col = email st, phone_col = phone st,
                identification_col = identification st, full_name_col = fullName st \<rparr>]]
     \<and> count_list (fst (handleSubmit v e p st)) OnSuccess = 1"
proof -
  from assms(2) obtain u a where u: "getUser e = Some u"
    and ok: "identification st = [] \<or> v (identification st)"
    and a: "build_addressData st u = Inr a"
    and r: "respond e (Insert ''addresses'' [a]) = None"
    using assms(1) by (auto simp: try_block_Normal)
  from a have cl: "country st = ''CL''"
    by (simp add: build_addressData_def split: if_splits)
  have tb: "try_block v e p st =
      ([GetUser, Persist (Insert ''addresses'' [a]), Notify saved_toast, OnSuccess], Normal)"
    using u ok a r assms(1) by (auto simp: try_block_def)
  have "fst (handleSubmit v e p st) =
      [PreventDefault, SetLoading True, GetUser, Persist (Insert ''addresses'' [a]),
       Notify saved_toast, OnSuccess, SetLoading False]"
    by (simp add: handleSubmit_trace tb catch_block_def)
  then show ?thesis
    using u a cl by (simp add: build_addressData_def)
qed

theorem create_success_witness:
  "initial create_mode = None
   \<and> snd (try_block isValidRUT signed_in create_mode home_form) = Normal
   \<and> persisted (fst (handleSubmit isValidRUT signed_in create_mode home_form)) =
       [Insert ''addresses'' [home_address]]
   \<and> count_list (fst (handleSubmit isValidRUT signed_in create_mode home_form)) OnSuccess = 1"
proof -
  have c: "initial create_mode = None" by (simp add: create_mode_def)
  show ?thesis
    using create_success [OF c sample_create_Normal] c sample_create_Normal
    by (simp add: sample_defs)
qed

text \<open>
  Claim C5. A successful submission issues exactly one persistence request, chosen by the
  mode: with a pre-fill record the update matched on that record's id (and no insert),
  without one the insert (and no update). After the request it shows the success
  notification and calls the completion callback; the whole trace is the one below.
\<close>

theorem success_one_write:
  assumes "snd (try_block v e p st) = Normal"
  shows "\<exists>u a. getUser e = Some u \<and> build_addressData st u = Inr a \<and>
     fst (handleSubmit v e p st) =
       [PreventDefault, SetLoading True, GetUser,
        Persist (case initial p of Some d \<Rightarrow> Update ''addresses'' a (init_id d)
                                 | None \<Rightarrow> Insert ''addresses'' [a]),
        Notify (case initial p of Some d \<Rightarrow> updated_toast | None \<Rightarrow> saved_toast),
        OnSuccess, SetLoading False]"
proof -
  from assms obtain u a where u: "getUser e = Some u"
    and ok: "identification st = [] \<or> v (identification st)"
    and a: "build_addressData st u = Inr a"
    and r: "respond e (case initial p of Some d \<Rightarrow> Update ''addresses'' a (init_id d)
                                     | None \<Rightarrow> Insert ''addresses'' [a]) = None"
    by (auto simp: try_block_Normal)
  have "fst (handleSubmit v e p st) =
       [PreventDefault, SetLoading True, GetUser,
        Persist (case initial p of Some d \<Rightarrow> Update ''addresses'' a (init_id d)
                                 | None \<Rightarrow> Insert ''addresses'' [a]),
        Notify (case initial p of Some d \<Rightarrow> updated_toast | None \<Rightarrow> saved_toast),
        OnSuccess, SetLoading False]"
    using u ok a r
    by (auto simp: handleSubmit_trace try_block_def catch_block_def split: option.splits)
  with u a show ?thesis by blast
qed

theorem success_one_write_witness:
  "snd (try_block isValidRUT signed_in edit_mode home_form) = Normal
   \<and> fst (handleSubmit isValidRUT signed_in edit_mode home_form) =
       [PreventDefault, SetLoading True, GetUser,
        Persist (Update ''addresses'' home_address ''a-7''),
        Notify updated_toast, OnSuccess, SetLoading False]"
proof -
  obtain u a where "getUser signed_in = Some u" and "build_addressData home_form u = Inr a"
    and tr: "fst (handleSubmit isValidRUT signed_in edit_mode home_form) =
       [PreventDefault, SetLoading True, GetUser,
        Persist (case initial edit_mode of Some d \<Rightarrow> Update ''addresses'' a (init_id d)
                                          | None \<Rightarrow> Insert ''addresses'' [a]),
        Notify (case initial edit_mode of Some d \<Rightarrow> updated_toast | None \<Rightarrow> saved_toast),
        OnSuccess, SetLoading False]"
    using success_one_write [OF sample_edit_Normal] by blast
  then have "a = home_address"
    using sample_build by (simp add: signed_in_def)
  with tr show ?thesis
    using sample_edit_Normal by (simp add: edit_mode_def home_row_def)
qed

text \<open>
  Claim C6. When the persistence request of a submission is answered with an error, the
  one notification shown is an error notification carrying the error's message, the
  completion callback is not called, and the state left is the state before with
  \<^verbatim>\<open>loading\<close> false: every entered value is as it was and the form is editing again.
\<close>

theorem persistence_failure_keeps_form:
  assumes "Persist r \<in> set (fst (handleSubmit v e p st))" and "respond e r = Some m"
  shows "notified (fst (handleSubmit v e p st)) =
           [\<lparr>title = ''Error'', description = m, variant = Some destructive\<rparr>]
     \<and> OnSuccess \<notin> set (fst (handleSubmit v e p st))
     \<and> snd (handleSubmit v e p st) = st\<lparr>loading := False\<rparr>
     \<and> phase_of (snd (handleSubmit v e p st)) = editing
     \<and> last (fst (handleSubmit v e p st)) = SetLoading False"
  using assms
  by (auto simp: handleSubmit_trace handleSubmit_state try_block_cases catch_block_def
      error_toast_def phase_of_def Let_def split: option.splits if_splits)

theorem persistence_failure_keeps_form_witness:
  "Persist (Insert ''addresses'' [home_address])
     \<in> set (fst (handleSubmit isValidRUT store_down create_mode home_form))
   \<and> respond store_down (Insert ''addresses'' [home_address]) = Some ''duplicate key value''
   \<and> notified (fst (handleSubmit isValidRUT store_down create_mode home_form)) =
       [\<lparr>title = ''Error'', description = ''duplicate key value'', variant = Some destructive\<rparr>]
   \<and> OnSuccess \<notin> set (fst (handleSubmit isValidRUT store_down create_mode home_form))
   \<and> snd (handleSubmit isValidRUT store_down create_mode home_form) = home_form
   \<and> phase_of (snd (handleSubmit isValidRUT store_down create_mode home_form)) = editing"
proof -
  have tb: "try_block isValidRUT store_down create_mode home_form =
      ([GetUser, Persist (Insert ''addresses'' [home_address])],
       Throw (PostgrestError ''duplicate key value''))"
    by (simp add: try_block_def sample_build sample_identification store_down_def
        create_mode_def refuse_all_def)
  have h1: "Persist (Insert ''addresses'' [home_address])
      \<in> set (fst (handleSubmit isValidRUT store_down create_mode home_form))"
    by (simp add: handleSubmit_trace tb)
  have h2: "respond store_down (Insert ''addresses'' [home_address]) = Some ''duplicate key value''"
    by (simp add: store_down_def refuse_all_def)
  have same: "home_form\<lparr>loading := False\<rparr> = home_form"
    by (simp add: sample_defs)
  have "phase_of home_form = editing"
    by (simp add: phase_of_def sample_defs)
  with same show ?thesis
    using persistence_failure_keeps_form [OF h1 h2] h1 h2 by simp
qed




text \<open>
  Claim C3, as stated: every submission whose identifier is non-empty and fails the
  validator shows the validation error notification and issues no persistence request.
  It fails for a signed-out user: the check of line 87 throws before the identifier is
  looked at, and the notification shown is the one of the missing user.
\<close>

theorem invalid_identifier_counterexample:
  "\<not> (identification bad_rut_form \<noteq> [] \<and> \<not> isValidRUT (identification bad_rut_form) \<longrightarrow>
       invalid_rut_toast
         \<in> set (notified (fst (handleSubmit isValidRUT signed_out create_mode bad_rut_form)))
       \<and> persisted (fst (handleSubmit isValidRUT signed_out create_mode bad_rut_form)) = [])"
proof -
  have i: "identification bad_rut_form = ''12345678-0''" by (simp add: sample_defs)
  have "notified (fst (handleSubmit isValidRUT signed_out create_mode bad_rut_form)) =
      [\<lparr>title = ''Error'', description = no_user_text, variant = Some destructive\<rparr>]"
    by (simp add: handleSubmit_trace try_block_def catch_block_def error_toast_def
        signed_out_def)
  then show ?thesis
    using bad_rut_invalid by (simp add: i invalid_rut_toast_def no_user_text_def)
qed

text \<open>
  Claim C3, amended. A submission whose identifier is non-empty and fails the validator
  issues no persistence request and calls no completion callback. When a user is
  resolved, it shows the validation error notification and nothing else; when none is, it
  shows the notification of the missing user instead.
\<close>

theorem invalid_identifier_aborts:
  assumes "identification st \<noteq> []" and "\<not> v (identification st)"
  shows "persisted (fst (handleSubmit v e p st)) = []
     \<and> OnSuccess \<notin> set (fst (handleSubmit v e p st))
     \<and> (getUser e \<noteq> None \<longrightarrow>
          fst (handleSubmit v e p st) =
            [PreventDefault, SetLoading True, GetUser, Notify invalid_rut_toast, SetLoading False])
     \<and> (getUser e = None \<longrightarrow>
          notified (fst (handleSubmit v e p st)) =
            [\<lparr>title = ''Error'', description = no_user_text, variant = Some destructive\<rparr>])"
  using assms
  by (auto simp: handleSubmit_trace try_block_cases catch_block_def error_toast_def
      split: option.splits)

theorem invalid_identifier_aborts_witness:
  "identification bad_rut_form \<noteq> [] \<and> \<not> isValidRUT (identification bad_rut_form)
   \<and> getUser signed_in \<noteq> None \<and> getUser signed_out = None
   \<and> persisted (fst (handleSubmit isValidRUT signed_in create_mode bad_rut_form)) = []
   \<and> fst (handleSubmit isValidRUT signed_in create_mode bad_rut_form) =
       [PreventDefault, SetLoading True, GetUser, Notify invalid_rut_toast, SetLoading False]
   \<and> notified (fst (handleSubmit isValidRUT signed_out create_mode bad_rut_form)) =
       [\<lparr>title = ''Error'', description = no_user_text, variant = Some destructive\<rparr>]"
proof -
  have i: "identification bad_rut_form = ''12345678-0''" by (simp add: sample_defs)
  have h1: "identification bad_rut_form \<noteq> []" by (simp add: i)
  have h2: "\<not> isValidRUT (identification bad_rut_form)" using bad_rut_invalid by (simp add: i)
  have g1: "getUser signed_in \<noteq> None" by (simp add: signed_in_def)
  have g2: "getUser signed_out = None" by (simp add: signed_out_def)
  show ?thesis
    using invalid_identifier_aborts [of bad_rut_form isValidRUT signed_in create_mode, OF h1 h2]
      invalid_identifier_aborts [of bad_rut_form isValidRUT signed_out create_mode, OF h1 h2]
      h1 h2 g1 g2
    by simp
qed

subsection \<open>The two states\<close>

lemma loadings_append: "loadings (xs @ ys) = loadings xs @ loadings ys"
  by (induction xs rule: loadings.induct) simp_all

lemma loadings_try_block: "loadings (fst (try_block v e p st)) = []"
  by (simp add: try_block_cases Let_def split: option.splits)

lemma loadings_catch_block: "loadings (catch_block c) = []"
  by (simp add: catch_block_def split: completion.splits)

lemma handleSubmit_loadings: "loadings (fst (handleSubmit v e p st)) = [True, False]"
  by (simp add: handleSubmit_trace loadings_append loadings_try_block loadings_catch_block)

lemma reachable_invariant:
  "reachable v p s \<Longrightarrow> in_flight s \<le> 1 \<and> (loading (shown s) \<longleftrightarrow> in_flight s = 1)"
proof (induction rule: reachable.induct)
  case start
  show ?case by (simp add: initial_form_def Let_def)
next
  case (after s t)
  from after.hyps(2) after.IH show ?case
    by (cases rule: step.cases)
       (auto simp: submitDisabled_def setLoading_def handleSubmit_state)
qed

text \<open>
  Claim C9. The form has two states, told apart by \<^verbatim>\<open>loading\<close>. It starts editing. A
  submission first sets \<^verbatim>\<open>loading\<close>, which is the submitting state, and sets it back as
  its last effect, on every path (success, failure, validation abort, no user): the only
  writes to \<^verbatim>\<open>loading\<close> are these two, and the state left is editing. The submit control
  is disabled exactly in the submitting state, and in every state the form can reach at
  most one submission is in flight, the form being in the submitting state exactly then.
\<close>

theorem two_state_machine:
  "phase_of (initial_form p) = editing
   \<and> phase_of (setLoading True st) = submitting
   \<and> loadings (fst (handleSubmit v e p st)) = [True, False]
   \<and> take 2 (fst (handleSubmit v e p st)) = [PreventDefault, SetLoading True]
   \<and> last (fst (handleSubmit v e p st)) = SetLoading False
   \<and> phase_of (snd (handleSubmit v e p st)) = editing
   \<and> (submitDisabled st \<longleftrightarrow> phase_of st = submitting)
   \<and> (reachable v p s \<longrightarrow>
        in_flight s \<le> 1 \<and> (phase_of (shown s) = submitting \<longleftrightarrow> in_flight s = 1))"
proof -
  have "reachable v p s \<longrightarrow>
        in_flight s \<le> 1 \<and> (phase_of (shown s) = submitting \<longleftrightarrow> in_flight s = 1)"
    using reachable_invariant [of v p s] by (simp add: phase_of_def)
  moreover have "phase_of (initial_form p) = editing"
    by (simp add: phase_of_def initial_form_def Let_def)
  moreover have "phase_of (setLoading True st) = submitting"
    by (simp add: phase_of_def setLoading_def)
  moreover have "phase_of (snd (handleSubmit v e p st)) = editing"
    by (simp add: phase_of_def handleSubmit_state)
  moreover have "submitDisabled st \<longleftrightarrow> phase_of st = submitting"
    by (simp add: phase_of_def submitDisabled_def)
  moreover have "take 2 (fst (handleSubmit v e p st)) = [PreventDefault, SetLoading True]"
    by (simp add: handleSubmit_trace)
  moreover have "last (fst (handleSubmit v e p st)) = SetLoading False"
    by (simp add: handleSubmit_trace)
  ultimately show ?thesis
    using handleSubmit_loadings [of v e p st] by blast
qed

theorem two_state_machine_witness:
  "reachable isValidRUT create_mode one_submitted
   \<and> in_flight one_submitted \<le> 1
   \<and> phase_of (shown one_submitted) = submitting \<and> in_flight one_submitted = 1
   \<and> submitDisabled (shown one_submitted)
   \<and> loadings (fst (handleSubmit isValidRUT signed_in create_mode (shown one_submitted))) =
       [True, False]
   \<and> phase_of (snd (handleSubmit isValidRUT signed_in create_mode (shown one_submitted))) =
       editing"
proof -
  have "\<not> submitDisabled (shown \<lparr>shown = initial_form create_mode, in_flight = 0\<rparr>)"
    by (simp add: submitDisabled_def initial_form_def Let_def)
  from step.submit [OF this, of isValidRUT create_mode]
  have "step isValidRUT create_mode \<lparr>shown = initial_form create_mode, in_flight = 0\<rparr>
      one_submitted"
    by (simp add: one_submitted_def)
  with reachable.start [of isValidRUT create_mode]
  have r: "reachable isValidRUT create_mode one_submitted"
    by (rule reachable.after)
  show ?thesis
    using two_state_machine
      [of create_mode "shown one_submitted" isValidRUT signed_in one_submitted] r
    by (simp add: one_submitted_def)
qed

end
